theory Spec2Isabelle
  imports Complex_Main "HOL-Library.Sublist"
begin

section \<open>Data model\<close>

text \<open>
  The manipulator wrapper \<^verbatim>\<open>herbpy/wam.py\<close> and the hand wrapper
  \<^verbatim>\<open>herbpy/barretthand.py\<close> are embedded. Times and joint values are Python floats
  in the source; they are modelled as exact rationals, so rounding is not part of the model.
  Exceptions raised by the code are values of \<open>error\<close>; a call returns its outcome
  together with the state it leaves behind, because a Python exception keeps every mutation
  made before it was raised.
\<close>

datatype error =
    ValueError
  | NotImplementedError
  | ZeroDivisionError
  | IndexError
  | PlanningError
  | TrajectoryAborted







text \<open>
  The WAM manipulator object: its \<^verbatim>\<open>simulated\<close> flag, the arm's DOF indices, the
  values \<^verbatim>\<open>GetRobot().GetDOFValues(GetArmIndices())\<close> returns, and the velocity
  vectors passed to \<^verbatim>\<open>servo_simulator.SetVelocity\<close>, oldest first.
\<close>

record wam =
  simulated :: bool
  GetArmIndices :: "nat list"
  arm_DOFValues :: "rat list"
  servo_commands :: "rat list list"

text \<open>
  The BarrettHand object: the hand's current DOF values (finger 0, finger 1, finger 2,
  spread) as \<^verbatim>\<open>GetDOFValues()\<close> returns them, and the last vector passed to
  \<^verbatim>\<open>controller.SetDesired\<close>.
\<close>

record hand =
  GetDOFValues :: "rat list"
  desired :: "rat list option"

section \<open>Operations\<close>

subsection \<open>\<^verbatim>\<open>WAM.Servo\<close>\<close>

definition Servo :: "wam \<Rightarrow> rat list \<Rightarrow> (error + unit) \<times> wam" where
  "Servo self velocities =
     (let num_dof = length (GetArmIndices self) in
      if length velocities \<noteq> num_dof then (Inl ValueError, self)
      else if \<not> simulated self then (Inl NotImplementedError, self)
      else (Inr (), self\<lparr>servo_commands := servo_commands self @ [velocities]\<rparr>))"

subsection \<open>\<^verbatim>\<open>WAM.ServoTo\<close>\<close>

text \<open>The difference of two one-dimensional numpy arrays: elementwise for equal lengths,
  an array of length 1 is broadcast, any other pair of lengths is an error.\<close>

definition numpy_subtract :: "rat list \<Rightarrow> rat list \<Rightarrow> error + rat list" where
  "numpy_subtract xs ys =
     (if length xs = length ys then Inr (map2 (-) xs ys)
      else if length xs = 1 then Inr (map (\<lambda>y. hd xs - y) ys)
      else if length ys = 1 then Inr (map (\<lambda>x. x - hd ys) xs)
      else Inl ValueError)"

text \<open>The loop \<^verbatim>\<open>for i in range(1, steps)\<close> of line 162, \<open>n\<close> iterations; an
  exception of \<^verbatim>\<open>Servo\<close> ends it. \<^verbatim>\<open>time.sleep\<close> has no effect on the state.\<close>

fun Servo_times :: "nat \<Rightarrow> wam \<Rightarrow> rat list \<Rightarrow> (error + unit) \<times> wam" where
  "Servo_times 0 self velocities = (Inr (), self)"
| "Servo_times (Suc n) self velocities =
     (case Servo self velocities of
        (Inl e, self') \<Rightarrow> (Inl e, self')
      | (Inr u, self') \<Rightarrow> Servo_times n self' velocities)"

text \<open>\<^verbatim>\<open>ServoTo\<close>. \<open>CollisionCheck\<close> is the method of that name, which this
  repository does not define. The velocities are read only by the loop, which does not
  run when \<open>steps\<close> is below 2, so their value for \<open>steps = 0\<close> does not matter.\<close>

definition ServoTo ::
  "(rat list \<Rightarrow> bool) \<Rightarrow> wam \<Rightarrow> rat list \<Rightarrow> rat \<Rightarrow> rat \<Rightarrow> bool \<Rightarrow> (error + bool) \<times> wam" where
  "ServoTo CollisionCheck self target duration timeStep collisionChecking =
     (if timeStep = 0 then (Inl ZeroDivisionError, self)
      else
        (let steps = \<lceil>duration / timeStep\<rceil> in
         case numpy_subtract target (arm_DOFValues self) of
           Inl e \<Rightarrow> (Inl e, self)
         | Inr velocity \<Rightarrow>
             (let velocities = map (\<lambda>v. v / of_int steps) velocity;
                  inCollision = (if collisionChecking then CollisionCheck target else False)
              in if \<not> inCollision then
                   (case Servo_times (nat (steps - 1)) self velocities of
                      (Inl e, self') \<Rightarrow> (Inl e, self')
                    | (Inr u, self') \<Rightarrow>
                        (case Servo self' (replicate (length (GetArmIndices self')) 0) of
                           (Inl e, self'') \<Rightarrow> (Inl e, self'')
                         | (Inr u, self'') \<Rightarrow> (Inr True, self'')))
                 else (Inr False, self))))"

subsection \<open>\<^verbatim>\<open>WAM.MoveUntilTouch\<close>\<close>







subsection \<open>\<^verbatim>\<open>BarrettHand.MoveHand\<close>\<close>

text \<open>Python's \<^verbatim>\<open>xs[i]\<close> for a non-negative index.\<close>

definition index :: "rat list \<Rightarrow> nat \<Rightarrow> error + rat" where
  "index xs i = (if i < length xs then Inr (xs ! i) else Inl IndexError)"

text \<open>\<^verbatim>\<open>f if f is not None else curr_pos[i]\<close>: the list is read only when the argument
  is \<^verbatim>\<open>None\<close>.\<close>

definition default_to :: "rat option \<Rightarrow> rat list \<Rightarrow> nat \<Rightarrow> error + rat" where
  "default_to f curr_pos i = (case f of Some v \<Rightarrow> Inr v | None \<Rightarrow> index curr_pos i)"

text \<open>\<^verbatim>\<open>util.WaitForControllers\<close> blocks until the controller is done or the timeout
  has passed; it commands nothing, and the model leaves the state as it is.\<close>

definition MoveHand ::
  "hand \<Rightarrow> rat option \<Rightarrow> rat option \<Rightarrow> rat option \<Rightarrow> rat option \<Rightarrow> rat option
     \<Rightarrow> (error + unit) \<times> hand" where
  "MoveHand self f1 f2 f3 spread timeout =
     (let curr_pos = GetDOFValues self in
      (case default_to f1 curr_pos 0 of
         Inl e \<Rightarrow> (Inl e, self)
       | Inr p0 \<Rightarrow>
      (case default_to f2 curr_pos 1 of
         Inl e \<Rightarrow> (Inl e, self)
       | Inr p1 \<Rightarrow>
      (case default_to f3 curr_pos 2 of
         Inl e \<Rightarrow> (Inl e, self)
       | Inr p2 \<Rightarrow>
      (case default_to spread curr_pos 3 of
         Inl e \<Rightarrow> (Inl e, self)
       | Inr p3 \<Rightarrow> (Inr (), self\<lparr>desired := Some [p0, p1, p2, p3]\<rparr>))))))"

subsection \<open>The sampler and the guards, as the loop meets them\<close>










section \<open>An example robot\<close>










definition hand0 :: hand where
  "hand0 = \<lparr>GetDOFValues = [1/10, 2/10, 3/10, 4/10], desired = None\<rparr>"

section \<open>Properties of the sampling loop\<close>

























section \<open>Properties of the forward simulation\<close>











section \<open>Runs of the example robot\<close>













section \<open>Properties of \<^verbatim>\<open>MoveUntilTouch\<close>\<close>


















section \<open>Properties of \<^verbatim>\<open>Servo\<close>\<close>

lemma Servo_simulated:
  "simulated self \<Longrightarrow> length velocities = length (GetArmIndices self) \<Longrightarrow>
   Servo self velocities = (Inr (), self\<lparr>servo_commands := servo_commands self @ [velocities]\<rparr>)"
  by (simp add: Servo_def)

text \<open>On the simulated arm, with a target of one value per arm DOF that is not in
  collision, \<^verbatim>\<open>ServoTo\<close> issues \<open>steps - 1\<close> times the constant velocity and then the
  zero velocity: \<open>\<lceil>duration / timeStep\<rceil>\<close> calls of \<^verbatim>\<open>Servo\<close> when that number is
  at least 1.\<close>

lemma Servo_times_simulated:
  assumes "simulated self" and "length velocities = length (GetArmIndices self)"
  shows "Servo_times n self velocities =
    (Inr (), self\<lparr>servo_commands := servo_commands self @ replicate n velocities\<rparr>)"
  using assms
proof (induction n arbitrary: self)
  case 0
  then show ?case by simp
next
  case (Suc n)
  let ?self' = "self\<lparr>servo_commands := servo_commands self @ [velocities]\<rparr>"
  have "Servo self velocities = (Inr (), ?self')"
    using Suc.prems by (simp add: Servo_def)
  moreover have "Servo_times n ?self' velocities =
      (Inr (), ?self'\<lparr>servo_commands := servo_commands ?self' @ replicate n velocities\<rparr>)"
    using Suc.prems by (intro Suc.IH) simp_all
  ultimately show ?case
    by (simp add: replicate_app_Cons_same)
qed

lemma ServoTo_commands:
  assumes "simulated self"
    and "length target = length (GetArmIndices self)"
    and "length (arm_DOFValues self) = length (GetArmIndices self)"
    and "timeStep \<noteq> 0"
    and "\<not> (collisionChecking \<and> CollisionCheck target)"
  shows "ServoTo CollisionCheck self target duration timeStep collisionChecking =
    (Inr True, self\<lparr>servo_commands := servo_commands self @
       replicate (nat (\<lceil>duration / timeStep\<rceil> - 1))
         (map (\<lambda>v. v / of_int \<lceil>duration / timeStep\<rceil>) (map2 (-) target (arm_DOFValues self))) @
       [replicate (length (GetArmIndices self)) 0]\<rparr>)"
proof -
  let ?steps = "\<lceil>duration / timeStep\<rceil>"
  let ?vs = "map (\<lambda>v. v / of_int ?steps) (map2 (-) target (arm_DOFValues self))"
  have sub: "numpy_subtract target (arm_DOFValues self) = Inr (map2 (-) target (arm_DOFValues self))"
    using assms(2,3) by (simp add: numpy_subtract_def)
  have len: "length ?vs = length (GetArmIndices self)"
    using assms(2,3) by simp
  have loop: "Servo_times (nat (?steps - 1)) self ?vs =
      (Inr (), self\<lparr>servo_commands := servo_commands self @ replicate (nat (?steps - 1)) ?vs\<rparr>)"
    by (rule Servo_times_simulated [OF assms(1) len])
  show ?thesis
    using assms(1,4,5) sub loop
    by (auto simp: ServoTo_def Let_def Servo_def)
qed

lemma ServoTo_count:
  assumes "simulated self"
    and "length target = length (GetArmIndices self)"
    and "length (arm_DOFValues self) = length (GetArmIndices self)"
    and "timeStep \<noteq> 0"
    and "\<not> (collisionChecking \<and> CollisionCheck target)"
    and "1 \<le> \<lceil>duration / timeStep\<rceil>"
  shows "int (length (servo_commands
            (snd (ServoTo CollisionCheck self target duration timeStep collisionChecking)))) =
         int (length (servo_commands self)) + \<lceil>duration / timeStep\<rceil>"
proof -
  have "ServoTo CollisionCheck self target duration timeStep collisionChecking =
    (Inr True, self\<lparr>servo_commands := servo_commands self @
       replicate (nat (\<lceil>duration / timeStep\<rceil> - 1))
         (map (\<lambda>v. v / of_int \<lceil>duration / timeStep\<rceil>) (map2 (-) target (arm_DOFValues self))) @
       [replicate (length (GetArmIndices self)) 0]\<rparr>)"
    using assms(1-5) by (rule ServoTo_commands)
  then show ?thesis
    using assms(6) by simp
qed






section \<open>Properties of \<^verbatim>\<open>MoveHand\<close>\<close>

lemma default_to_in_range:
  "i < length curr_pos \<Longrightarrow>
   default_to f curr_pos i = Inr (case f of None \<Rightarrow> curr_pos ! i | Some v \<Rightarrow> v)"
  by (simp add: default_to_def index_def split: option.splits)

text \<open>
  Claim C10. On a hand with its four DOF values, \<^verbatim>\<open>MoveHand\<close> succeeds and commands
  the vector in which every argument that was given stands as it is and every argument left
  \<^verbatim>\<open>None\<close> is replaced by the hand's current value of that joint, read at the call:
  finger 1 from position 0, finger 2 from 1, finger 3 from 2 and the spread from 3. Nothing
  else of the hand changes.
\<close>

theorem MoveHand_holds_unspecified:
  assumes "4 \<le> length (GetDOFValues self)"
  shows "MoveHand self f1 f2 f3 spread timeout =
     (Inr (), self\<lparr>desired := Some
        [case f1 of None \<Rightarrow> GetDOFValues self ! 0 | Some v \<Rightarrow> v,
         case f2 of None \<Rightarrow> GetDOFValues self ! 1 | Some v \<Rightarrow> v,
         case f3 of None \<Rightarrow> GetDOFValues self ! 2 | Some v \<Rightarrow> v,
         case spread of None \<Rightarrow> GetDOFValues self ! 3 | Some v \<Rightarrow> v]\<rparr>)"
proof -
  have in_range: "i < length (GetDOFValues self)" if "i < 4" for i
    using assms that by linarith
  have "default_to f1 (GetDOFValues self) 0 =
          Inr (case f1 of None \<Rightarrow> GetDOFValues self ! 0 | Some v \<Rightarrow> v)"
    and "default_to f2 (GetDOFValues self) 1 =
          Inr (case f2 of None \<Rightarrow> GetDOFValues self ! 1 | Some v \<Rightarrow> v)"
    and "default_to f3 (GetDOFValues self) 2 =
          Inr (case f3 of None \<Rightarrow> GetDOFValues self ! 2 | Some v \<Rightarrow> v)"
    and "default_to spread (GetDOFValues self) 3 =
          Inr (case spread of None \<Rightarrow> GetDOFValues self ! 3 | Some v \<Rightarrow> v)"
    by (rule default_to_in_range, rule in_range, simp)+
  then show ?thesis
    by (simp add: MoveHand_def Let_def)
qed

theorem MoveHand_holds_unspecified_witness:
  "4 \<le> length (GetDOFValues hand0) \<and>
   MoveHand hand0 (Some 1) None None (Some 3) None =
     (Inr (), hand0\<lparr>desired := Some [1, 2/10, 3/10, 3]\<rparr>) \<and>
   MoveHand hand0 None None None None (Some 5) =
     (Inr (), hand0\<lparr>desired := Some (GetDOFValues hand0)\<rparr>)"
  using MoveHand_holds_unspecified [of hand0 "Some 1" None None "Some 3" None]
    MoveHand_holds_unspecified [of hand0 None None None None "Some 5"]
  by (simp add: hand0_def)

end
